theory Spec2Isabelle
  imports Complex_Main "HOL-Library.Sublist"
begin

section \<open>Data model of the email store (lib/stores/email-store.ts)\<close>

text \<open>
  The interfaces of the store become records. A field whose name is a HOL constant, an
  Isar keyword or the field of another record carries a suffix: \<open>id_e\<close>, \<open>from_e\<close> for
  \<open>Email.id\<close>, \<open>Email.from\<close>; \<open>id_c\<close> for \<open>EmailClassification.id\<close>; \<open>_t\<close> for
  \<open>UserTag\<close>; \<open>hasAttachment_f\<close> for \<open>EmailFilters.hasAttachment\<close>. An optional field
  (\<open>?:\<close>, \<open>| null\<close>) is an \<open>option\<close>; \<open>None\<close> stands for both \<open>null\<close> and
  \<open>undefined\<close>, which the code never tells apart.
\<close>

record Email =
  id_e :: string
  threadId :: string
  from_e :: string
  subject :: string
  date :: string
  snippet :: string
  isUnread :: "bool option"
  hasAttachment :: "bool option"
  labelIds :: "string list option"

datatype priority = High | Medium | Low

record EmailClassification =
  id_c :: string
  emailId :: string
  userId :: string
  category :: string
  priority :: priority
  isRedundant :: bool
  redundantOf :: "string option"
  aiReason :: "string option"
  confidence :: "real option"
  isManual :: bool

record UserTag =
  id_t :: string
  userId_t :: string
  name_t :: string
  color_t :: string

datatype DateRange = All | Today | Week | Month

record EmailFilters =
  search :: string
  unreadOnly :: bool
  hasAttachment_f :: bool
  dateRange :: DateRange
  categories :: "string list"
  priorities :: "priority list"
  tags :: "string list"
  excludeRedundant :: bool

text \<open>
  \<open>EmailState\<close>, data fields only: the actions are the functions below. A JS \<open>Map\<close> is
  a HOL map, a JS \<open>Set\<close> of ids is a HOL set.
\<close>

record EmailState =
  emails :: "Email list"
  selectedEmailId :: "string option"
  selectedEmailIds :: "string set"
  classifications :: "string \<rightharpoonup> EmailClassification"
  userTags :: "UserTag list"
  emailTags :: "string \<rightharpoonup> string list"
  isClassifying :: bool
  pageToken :: "string option"
  hasMore :: bool
  isLoading :: bool
  isLoadingMore :: bool
  error :: "string option"
  filters :: EmailFilters

definition defaultFilters :: EmailFilters where
  "defaultFilters =
     \<lparr>search = [], unreadOnly = False, hasAttachment_f = False, dateRange = All,
      categories = [], priorities = [], tags = [], excludeRedundant = False\<rparr>"

definition initialState :: EmailState where
  "initialState =
     \<lparr>emails = [], selectedEmailId = None, selectedEmailIds = {},
      classifications = Map.empty, userTags = [], emailTags = Map.empty,
      isClassifying = False, pageToken = None, hasMore = False, isLoading = True,
      isLoadingMore = False, error = None, filters = defaultFilters\<rparr>"

text \<open>\<open>!!pageToken\<close>: \<open>null\<close>, \<open>undefined\<close> and the empty string are falsy.\<close>

definition truthy :: "string option \<Rightarrow> bool" where
  "truthy t = (case t of None \<Rightarrow> False | Some s \<Rightarrow> s \<noteq> [])"

section \<open>Store actions\<close>

definition setEmails :: "Email list \<Rightarrow> EmailState \<Rightarrow> EmailState" where
  "setEmails es s = s\<lparr>emails := es, selectedEmailId := None, selectedEmailIds := {}\<rparr>"

definition appendEmails :: "Email list \<Rightarrow> string option \<Rightarrow> EmailState \<Rightarrow> EmailState" where
  "appendEmails newEmails tok s =
     s\<lparr>emails := emails s @ newEmails, pageToken := tok, hasMore := truthy tok\<rparr>"

definition selectEmail :: "string option \<Rightarrow> EmailState \<Rightarrow> EmailState" where
  "selectEmail i s = s\<lparr>selectedEmailId := i\<rparr>"

definition toggleEmailSelection :: "string \<Rightarrow> EmailState \<Rightarrow> EmailState" where
  "toggleEmailSelection i s =
     (if i \<in> selectedEmailIds s
      then s\<lparr>selectedEmailIds := selectedEmailIds s - {i}\<rparr>
      else s\<lparr>selectedEmailIds := insert i (selectedEmailIds s)\<rparr>)"

definition selectAllEmails :: "EmailState \<Rightarrow> EmailState" where
  "selectAllEmails s = s\<lparr>selectedEmailIds := set (map id_e (emails s))\<rparr>"

definition clearSelection :: "EmailState \<Rightarrow> EmailState" where
  "clearSelection s = s\<lparr>selectedEmailIds := {}\<rparr>"

definition setLoading :: "bool \<Rightarrow> EmailState \<Rightarrow> EmailState" where
  "setLoading b s = s\<lparr>isLoading := b\<rparr>"

definition setLoadingMore :: "bool \<Rightarrow> EmailState \<Rightarrow> EmailState" where
  "setLoadingMore b s = s\<lparr>isLoadingMore := b\<rparr>"

definition setError :: "string option \<Rightarrow> EmailState \<Rightarrow> EmailState" where
  "setError e s = s\<lparr>error := e\<rparr>"

definition setPageToken :: "string option \<Rightarrow> EmailState \<Rightarrow> EmailState" where
  "setPageToken tok s = s\<lparr>pageToken := tok, hasMore := truthy tok\<rparr>"

definition setHasMore :: "bool \<Rightarrow> EmailState \<Rightarrow> EmailState" where
  "setHasMore b s = s\<lparr>hasMore := b\<rparr>"

text \<open>
  \<open>updateFilter(key, value)\<close>: the pair of a key of \<open>EmailFilters\<close> and a value of that
  key's type is one constructor per key.
\<close>

datatype filterUpdate =
    Search string
  | UnreadOnly bool
  | HasAttachment bool
  | DateRangeKey DateRange
  | Categories "string list"
  | Priorities "priority list"
  | Tags "string list"
  | ExcludeRedundant bool

fun applyUpdate :: "filterUpdate \<Rightarrow> EmailFilters \<Rightarrow> EmailFilters" where
  "applyUpdate (Search v) f = f\<lparr>search := v\<rparr>"
| "applyUpdate (UnreadOnly v) f = f\<lparr>unreadOnly := v\<rparr>"
| "applyUpdate (HasAttachment v) f = f\<lparr>hasAttachment_f := v\<rparr>"
| "applyUpdate (DateRangeKey v) f = f\<lparr>dateRange := v\<rparr>"
| "applyUpdate (Categories v) f = f\<lparr>categories := v\<rparr>"
| "applyUpdate (Priorities v) f = f\<lparr>priorities := v\<rparr>"
| "applyUpdate (Tags v) f = f\<lparr>tags := v\<rparr>"
| "applyUpdate (ExcludeRedundant v) f = f\<lparr>excludeRedundant := v\<rparr>"

definition updateFilter :: "filterUpdate \<Rightarrow> EmailState \<Rightarrow> EmailState" where
  "updateFilter u s = s\<lparr>filters := applyUpdate u (filters s)\<rparr>"

definition resetFilters :: "EmailState \<Rightarrow> EmailState" where
  "resetFilters s = s\<lparr>filters := defaultFilters, pageToken := None\<rparr>"

definition markAsRead :: "string list \<Rightarrow> EmailState \<Rightarrow> EmailState" where
  "markAsRead ids s =
     s\<lparr>emails := map (\<lambda>email. if id_e email \<in> set ids
                                 then email\<lparr>isUnread := Some False\<rparr> else email) (emails s)\<rparr>"

definition markAsUnread :: "string list \<Rightarrow> EmailState \<Rightarrow> EmailState" where
  "markAsUnread ids s =
     s\<lparr>emails := map (\<lambda>email. if id_e email \<in> set ids
                                 then email\<lparr>isUnread := Some True\<rparr> else email) (emails s)\<rparr>"

text \<open>
  \<open>setClassifications\<close>: the loop over \<open>Object.entries(newClassifications)\<close> is a fold
  over the entries in their order; each entry is stored with \<open>merged.set\<close>.
\<close>

definition setClassifications ::
  "(string \<times> EmailClassification) list \<Rightarrow> EmailState \<Rightarrow> EmailState" where
  "setClassifications newClassifications s =
     s\<lparr>classifications :=
         fold (\<lambda>(eid, classification) merged. merged(eid \<mapsto> classification))
              newClassifications (classifications s)\<rparr>"

definition setUserTags :: "UserTag list \<Rightarrow> EmailState \<Rightarrow> EmailState" where
  "setUserTags ts s = s\<lparr>userTags := ts\<rparr>"

definition setEmailTags :: "string \<Rightarrow> string list \<Rightarrow> EmailState \<Rightarrow> EmailState" where
  "setEmailTags eid tagIds s = s\<lparr>emailTags := (emailTags s)(eid \<mapsto> tagIds)\<rparr>"

definition setClassifying :: "bool \<Rightarrow> EmailState \<Rightarrow> EmailState" where
  "setClassifying b s = s\<lparr>isClassifying := b\<rparr>"

text \<open>
  The callback of \<open>emails.filter\<close> in \<open>getFilteredEmails\<close>: four tests in the source's
  order, each returning \<open>false\<close> early. \<open>!classification\<close> is the missing map entry;
  \<open>classification?.isRedundant\<close> is \<open>undefined\<close> (falsy) on a missing entry;
  \<open>emailTags.get(email.id) || []\<close> is the empty list on a missing entry.
\<close>

definition isVisible :: "EmailState \<Rightarrow> Email \<Rightarrow> bool" where
  "isVisible s email =
     (if categories (filters s) \<noteq> [] \<and>
         (case classifications s (id_e email) of
            None \<Rightarrow> True
          | Some classification \<Rightarrow> category classification \<notin> set (categories (filters s)))
      then False
      else if priorities (filters s) \<noteq> [] \<and>
         (case classifications s (id_e email) of
            None \<Rightarrow> True
          | Some classification \<Rightarrow> priority classification \<notin> set (priorities (filters s)))
      then False
      else if excludeRedundant (filters s) \<and>
         (case classifications s (id_e email) of
            None \<Rightarrow> False
          | Some classification \<Rightarrow> isRedundant classification)
      then False
      else if tags (filters s) \<noteq> [] \<and>
         \<not> list_ex (\<lambda>tagId. tagId \<in> set (case emailTags s (id_e email) of
                                              None \<Rightarrow> [] | Some tgs \<Rightarrow> tgs))
                    (tags (filters s))
      then False
      else True)"

definition getFilteredEmails :: "EmailState \<Rightarrow> Email list" where
  "getFilteredEmails s = filter (isVisible s) (emails s)"

section \<open>The UI store (lib/stores/ui-store.ts)\<close>

datatype Widget = EmailWidget | CalendarWidget | TasksWidget | NotesWidget

record UIState =
  sidebarExpanded :: bool
  activeWidget :: Widget
  detailPanelOpen :: bool
  shortcutsModalOpen :: bool

definition toggleSidebar :: "UIState \<Rightarrow> UIState" where
  "toggleSidebar u = u\<lparr>sidebarExpanded := \<not> sidebarExpanded u\<rparr>"

definition openDetailPanel :: "UIState \<Rightarrow> UIState" where
  "openDetailPanel u = u\<lparr>detailPanelOpen := True\<rparr>"

definition closeDetailPanel :: "UIState \<Rightarrow> UIState" where
  "closeDetailPanel u = u\<lparr>detailPanelOpen := False\<rparr>"

section \<open>The list component (components/email/email-list.tsx)\<close>

text \<open>
  The component's state beside the two stores: the ref \<open>classifiedIdsRef\<close>, the ref
  \<open>selectedIndexRef\<close>, and the counter behind \<open>forceRender\<close>. Its effects on the outside
  are recorded: \<open>requests\<close> is the list of \<open>fetch\<close> calls issued so far (latest last),
  \<open>console\<close> the messages given to \<open>console.error\<close>. \<open>displayMemo\<close> is the value that
  \<open>useMemo\<close> holds for \<open>displayEmails\<close>; \<open>classifyTimer\<close> says whether the one-second
  timer of the classification effect is pending.
\<close>

record EmailForAI =
  id_ai :: string
  from_ai :: string
  subject_ai :: string
  snippet_ai :: string
  date_ai :: string

datatype request =
    GetMessages "string option" "string option"
      \<comment> \<open>\<open>GET /api/gmail/messages\<close> with its \<open>q\<close> and \<open>pageToken\<close> parameters\<close>
  | PostClassifications "EmailForAI list" "string list"
      \<comment> \<open>\<open>POST /api/classifications\<close> with \<open>emails\<close> and \<open>existingEmailIds\<close>\<close>

record World =
  store :: EmailState
  uiStore :: UIState
  classifiedIdsRef :: "string set"
  selectedIndexRef :: int
  forceRender :: nat
  requests :: "request list"
  console :: "string list"
  displayMemo :: "Email list"
  classifyTimer :: bool

text \<open>\<open>parts.join(" ")\<close>.\<close>

fun join :: "string list \<Rightarrow> string" where
  "join [] = []"
| "join [p] = p"
| "join (p # ps) = p @ '' '' @ join ps"

text \<open>
  \<open>buildQuery\<close>. The date token depends on the clock: \<open>isoDate r\<close> stands for
  \<open>afterDate.toISOString().split("T")[0]\<close> of the range \<open>r\<close> at the time of the call.
\<close>

definition buildQuery :: "(DateRange \<Rightarrow> string) \<Rightarrow> EmailFilters \<Rightarrow> string" where
  "buildQuery isoDate f =
     join ((if search f \<noteq> [] then [search f] else [])
         @ (if unreadOnly f then [''is:unread''] else [])
         @ (if hasAttachment_f f then [''has:attachment''] else [])
         @ (if dateRange f \<noteq> All then [''after:'' @ isoDate (dateRange f)] else []))"

text \<open>
  \<open>fetchEmails(append)\<close> is asynchronous: \<open>fetchEmails_begin\<close> is the part that runs up
  to the \<open>await fetch\<close> (it issues the request), \<open>fetchEmails_end\<close> the part that runs
  when the response has arrived, on one of three outcomes: the fetch or the JSON parse
  threw an \<open>Error\<close> with a message, the response was not ok (with \<open>data.error\<close>), or it
  was ok with \<open>data.messages\<close> and \<open>data.nextPageToken\<close>.
\<close>

definition fetchEmails_begin :: "(DateRange \<Rightarrow> string) \<Rightarrow> bool \<Rightarrow> World \<Rightarrow> World" where
  "fetchEmails_begin isoDate append_p w =
     (let s = store w;
          query = buildQuery isoDate (filters s)
      in w\<lparr>store := (if append_p then setLoadingMore True s
                      else setError None (setLoading True s)),
           requests := requests w @
             [GetMessages (if query \<noteq> [] then Some query else None)
                          (if append_p \<and> truthy (pageToken s) then pageToken s else None)]\<rparr>)"

datatype fetchResponse =
    FetchThrew string
  | FetchNotOk "string option"
  | FetchOk "Email list option" "string option"

definition orElse :: "'a list option \<Rightarrow> 'a list \<Rightarrow> 'a list" where
  "orElse v d = (case v of None \<Rightarrow> d | Some x \<Rightarrow> (if x = [] then d else x))"

fun fetchEmails_end :: "bool \<Rightarrow> fetchResponse \<Rightarrow> World \<Rightarrow> World" where
  "fetchEmails_end append_p (FetchOk messages nextPageToken) w =
     w\<lparr>store := setLoadingMore False (setLoading False
         (if append_p
          then appendEmails (case messages of None \<Rightarrow> [] | Some ms \<Rightarrow> ms) nextPageToken (store w)
          else setPageToken nextPageToken
                 (setEmails (case messages of None \<Rightarrow> [] | Some ms \<Rightarrow> ms) (store w))))\<rparr>"
| "fetchEmails_end append_p (FetchNotOk err) w =
     w\<lparr>store := setLoadingMore False (setLoading False
         (setError (Some (orElse err ''Failed to fetch emails'')) (store w)))\<rparr>"
| "fetchEmails_end append_p (FetchThrew msg) w =
     w\<lparr>store := setLoadingMore False (setLoading False (setError (Some msg) (store w)))\<rparr>"

text \<open>
  \<open>classifyEmails\<close>, run by the one-second timer. \<open>unclassifiedEmails\<close> is its filter;
  \<open>classifyBatch\<close> is the batch it goes on with (\<open>None\<close> on the two early returns);
  \<open>classifyEmails_begin\<close> runs up to the \<open>await fetch\<close>, \<open>classifyEmails_end\<close> from the
  response to the end of \<open>finally\<close>, for the batch of the first part.
\<close>

definition unclassifiedEmails :: "EmailState \<Rightarrow> string set \<Rightarrow> Email list" where
  "unclassifiedEmails s pending =
     filter (\<lambda>e. classifications s (id_e e) = None \<and> id_e e \<notin> pending) (emails s)"

definition classifyBatch :: "World \<Rightarrow> Email list option" where
  "classifyBatch w =
     (let s = store w in
      if emails s = [] \<or> isClassifying s \<or> isLoading s then None
      else let unclassified = unclassifiedEmails s (classifiedIdsRef w) in
        if unclassified = [] then None else Some (take 50 unclassified))"

definition toEmailForAI :: "Email \<Rightarrow> EmailForAI" where
  "toEmailForAI e =
     \<lparr>id_ai = id_e e, from_ai = from_e e, subject_ai = subject e,
      snippet_ai = snippet e, date_ai = date e\<rparr>"

definition classifyEmails_begin :: "World \<Rightarrow> World" where
  "classifyEmails_begin w =
     (case classifyBatch w of
        None \<Rightarrow> w
      | Some batch \<Rightarrow>
          w\<lparr>classifiedIdsRef := fold (\<lambda>e pending. insert (id_e e) pending) batch
                                       (classifiedIdsRef w),
            store := setClassifying True (store w),
            requests := requests w @
              [PostClassifications (map toEmailForAI batch) (map id_e (emails (store w)))]\<rparr>)"

datatype classifyResponse =
    ClassifyThrew string
  | ClassifyNotOk
  | ClassifyOk "(string \<times> EmailClassification) list"

fun classifyEmails_end :: "Email list \<Rightarrow> classifyResponse \<Rightarrow> World \<Rightarrow> World" where
  "classifyEmails_end batch (ClassifyOk data) w =
     w\<lparr>store := setClassifying False (setClassifications data (store w))\<rparr>"
| "classifyEmails_end batch ClassifyNotOk w =
     w\<lparr>classifiedIdsRef := fold (\<lambda>e pending. pending - {id_e e}) batch (classifiedIdsRef w),
       store := setClassifying False (store w)\<rparr>"
| "classifyEmails_end batch (ClassifyThrew msg) w =
     w\<lparr>console := console w @ [''Failed to classify emails: '' @ msg],
       classifiedIdsRef := fold (\<lambda>e pending. pending - {id_e e}) batch (classifiedIdsRef w),
       store := setClassifying False (store w)\<rparr>"

text \<open>
  The effect around \<open>classifyEmails\<close> has the dependencies \<open>emails\<close>,
  \<open>classifications\<close>, \<open>isClassifying\<close>, \<open>isLoading\<close> (and the two store setters,
  which never change). After a render in which one of them is new, the cleanup clears
  the pending timer and the body sets a new one for 1000 ms. The two flags are compared
  by value; \<open>newObjects\<close> says whether \<open>emails\<close> or \<open>classifications\<close> is a new array
  or map object; \<open>prev\<close> is the store state of the render before.
  \<open>timerFires\<close> is the pending timer's callback; how long the timer waits is not modelled.
\<close>

definition classifyEffect :: "bool \<Rightarrow> EmailState \<Rightarrow> World \<Rightarrow> World" where
  "classifyEffect newObjects prev w =
     (if newObjects \<or> isClassifying (store w) \<noteq> isClassifying prev
         \<or> isLoading (store w) \<noteq> isLoading prev
      then w\<lparr>classifyTimer := True\<rparr> else w)"

definition timerFires :: "World \<Rightarrow> World" where
  "timerFires w =
     (if classifyTimer w then classifyEmails_begin (w\<lparr>classifyTimer := False\<rparr>) else w)"

text \<open>
  The keys of \<open>EmailFilters\<close> that \<open>buildQuery\<close> does not read: the filters applied on
  the client from the classification and tag maps.
\<close>

fun classificationDerived :: "filterUpdate \<Rightarrow> bool" where
  "classificationDerived (Categories v) = True"
| "classificationDerived (Priorities v) = True"
| "classificationDerived (Tags v) = True"
| "classificationDerived (ExcludeRedundant v) = True"
| "classificationDerived (Search v) = False"
| "classificationDerived (UnreadOnly v) = False"
| "classificationDerived (HasAttachment v) = False"
| "classificationDerived (DateRangeKey v) = False"

text \<open>
  \<open>displayEmails\<close> is a \<open>useMemo\<close>. The definition \<open>displayEmails\<close> below is the memo's
  callback: the list it returns when it runs on the store state \<open>s\<close>. The list that the
  component renders and that the keyboard handler walks is the memo's value, the field
  \<open>displayMemo\<close>: \<open>useMemo_displayEmails\<close> is what a render does to it. The callback
  runs only when one of the dependencies \<open>emails\<close>, \<open>filters.categories\<close>,
  \<open>filters.priorities\<close>, \<open>filters.excludeRedundant\<close> is new (\<open>getFilteredEmails\<close>
  never changes); a change of \<open>classifications\<close>, \<open>emailTags\<close> or \<open>filters.tags\<close> alone
  leaves the memo's value as it is.
\<close>

definition hasClassificationFilters :: "EmailFilters \<Rightarrow> bool" where
  "hasClassificationFilters f =
     (categories f \<noteq> [] \<or> priorities f \<noteq> [] \<or> excludeRedundant f)"

definition displayEmails :: "EmailState \<Rightarrow> Email list" where
  "displayEmails s =
     (if hasClassificationFilters (filters s) then getFilteredEmails s else emails s)"

definition useMemo_displayEmails :: "bool \<Rightarrow> World \<Rightarrow> World" where
  "useMemo_displayEmails depChanged w =
     (if depChanged then w\<lparr>displayMemo := displayEmails (store w)\<rparr> else w)"

text \<open>
  Whether \<open>updateFilter(key, value)\<close> gives the memo a new dependency. React compares
  with \<open>Object.is\<close>: the callers of \<open>updateFilter\<close> for categories and priorities
  (\<open>toggleCategory\<close>, \<open>togglePriority\<close> in email-filters.tsx) pass an array they have
  just built, which is a new object; the boolean \<open>excludeRedundant\<close> is new when its value
  differs; for every other key the spread in \<open>updateFilter\<close> keeps the three dependencies.
\<close>

fun memoDepChanged :: "filterUpdate \<Rightarrow> EmailFilters \<Rightarrow> bool" where
  "memoDepChanged (Categories v) f = True"
| "memoDepChanged (Priorities v) f = True"
| "memoDepChanged (ExcludeRedundant v) f = (v \<noteq> excludeRedundant f)"
| "memoDepChanged (Tags v) f = False"
| "memoDepChanged (Search v) f = False"
| "memoDepChanged (UnreadOnly v) f = False"
| "memoDepChanged (HasAttachment v) f = False"
| "memoDepChanged (DateRangeKey v) f = False"

text \<open>
  The effect \<open>useEffect(() => { fetchEmails(); }, [filters])\<close> runs after every render
  in which the store's \<open>filters\<close> object is a new one. \<open>updateFilter\<close> builds a new
  object on every call, so a filter change made through it is the store update, the
  render (with the memo) and the effect. \<open>resetFilters\<close> stores the one \<open>defaultFilters\<close>
  object, a new one whenever the filters before were not the defaults; \<open>clearFilters\<close>
  is that case, where \<open>depChanged\<close> says whether the categories or priorities array
  before was another object than the defaults' or \<open>excludeRedundant\<close> was set.
\<close>

definition changeFilter :: "(DateRange \<Rightarrow> string) \<Rightarrow> filterUpdate \<Rightarrow> World \<Rightarrow> World" where
  "changeFilter isoDate u w =
     fetchEmails_begin isoDate False
       (useMemo_displayEmails (memoDepChanged u (filters (store w)))
          (w\<lparr>store := updateFilter u (store w)\<rparr>))"

definition clearFilters :: "(DateRange \<Rightarrow> string) \<Rightarrow> bool \<Rightarrow> World \<Rightarrow> World" where
  "clearFilters isoDate depChanged w =
     fetchEmails_begin isoDate False
       (useMemo_displayEmails depChanged (w\<lparr>store := resetFilters (store w)\<rparr>))"

subsection \<open>The keyboard handler\<close>

text \<open>
  \<open>Array.prototype.findIndex\<close>: the index of the first element that satisfies the
  test, \<open>-1\<close> when there is none.
\<close>

fun findIndex :: "('a \<Rightarrow> bool) \<Rightarrow> 'a list \<Rightarrow> int" where
  "findIndex P [] = - 1"
| "findIndex P (x # xs) =
     (if P x then 0
      else (let i = findIndex P xs in if i = - 1 then - 1 else i + 1))"

text \<open>
  \<open>xs[i]\<close> is \<open>undefined\<close> out of range, and \<open>undefined.id\<close> throws a TypeError:
  \<open>elemAt\<close> returns \<open>None\<close> there and the handler below turns it into the error.
\<close>

definition elemAt :: "'a list \<Rightarrow> int \<Rightarrow> 'a option" where
  "elemAt xs i = (if 0 \<le> i \<and> i < int (length xs) then Some (xs ! nat i) else None)"

datatype error = TypeError

record KeyboardEvent =
  key :: string
  metaKey :: bool
  ctrlKey :: bool
  targetTagName :: string

definition rerender :: "World \<Rightarrow> World" where
  "rerender w = w\<lparr>forceRender := forceRender w + 1\<rparr>"

text \<open>
  The three statements that the branches of j and k share:
  \<open>store.selectEmail(displayEmails[i].id); selectedIndexRef.current = i; forceRender(...)\<close>.
  \<open>activate\<close> is their effect for the id read, \<open>moveTo\<close> reads the id first.
\<close>

definition activate :: "string \<Rightarrow> int \<Rightarrow> World \<Rightarrow> World" where
  "activate i n w =
     rerender (w\<lparr>store := selectEmail (Some i) (store w), selectedIndexRef := n\<rparr>)"

definition moveTo :: "Email list \<Rightarrow> int \<Rightarrow> World \<Rightarrow> error + World" where
  "moveTo displayed i w =
     (case elemAt displayed i of
        None \<Rightarrow> Inl TypeError
      | Some email \<Rightarrow> Inr (activate (id_e email) i w))"

definition handleKeyDown ::
  "(DateRange \<Rightarrow> string) \<Rightarrow> Email list \<Rightarrow> KeyboardEvent \<Rightarrow> World \<Rightarrow> error + World" where
  "handleKeyDown isoDate displayed e w =
     (if targetTagName e = ''INPUT'' \<or> targetTagName e = ''TEXTAREA'' then Inr w
      else
        let currentSelectedId = selectedEmailId (store w);
            currentIndex = findIndex (\<lambda>email. Some (id_e email) = currentSelectedId) displayed
        in
        if key e = ''j'' \<or> key e = ''ArrowDown'' then
          (if currentIndex < int (length displayed) - 1 then
             moveTo displayed (currentIndex + 1) w
           else if currentIndex = - 1 \<and> displayed \<noteq> [] then
             moveTo displayed 0 w
           else Inr w)
        else if key e = ''k'' \<or> key e = ''ArrowUp'' then
          (if currentIndex > 0 then moveTo displayed (currentIndex - 1) w else Inr w)
        else if key e = ''Enter'' \<or> key e = ''o'' then
          (if truthy currentSelectedId
           then Inr (rerender (w\<lparr>uiStore := openDetailPanel (uiStore w)\<rparr>))
           else Inr w)
        else if key e = ''Escape'' then
          Inr (rerender
            (if detailPanelOpen (uiStore w) then w\<lparr>uiStore := closeDetailPanel (uiStore w)\<rparr>
             else if selectedEmailIds (store w) \<noteq> {} then w\<lparr>store := clearSelection (store w)\<rparr>
             else w\<lparr>store := selectEmail None (store w)\<rparr>))
        else if key e = ''x'' then
          (case currentSelectedId of
             None \<Rightarrow> Inr w
           | Some i \<Rightarrow>
               if i \<noteq> [] then Inr (rerender (w\<lparr>store := toggleEmailSelection i (store w)\<rparr>))
               else Inr w)
        else if key e = ''a'' then
          (if metaKey e \<or> ctrlKey e
           then Inr (rerender (w\<lparr>store := selectAllEmails (store w)\<rparr>))
           else Inr w)
        else if key e = ''r'' then
          (if \<not> metaKey e \<and> \<not> ctrlKey e then Inr (fetchEmails_begin isoDate False w)
           else Inr w)
        else if key e = ''[''  then
          Inr (rerender (w\<lparr>uiStore := toggleSidebar (uiStore w)\<rparr>))
        else Inr w)"

definition keyEvent :: "string \<Rightarrow> KeyboardEvent" where
  "keyEvent k = \<lparr>key = k, metaKey = False, ctrlKey = False, targetTagName = ''BODY''\<rparr>"

subsection \<open>The second listener (components/email/email-detail.tsx) and the dispatch\<close>

text \<open>
  \<open>EmailDetail\<close> registers a \<open>keydown\<close> listener of its own on \<open>window\<close> (the effect
  commented "Close on escape"). It reads \<open>detailPanelOpen\<close> from its closure: the value of
  the render that registered it, which is the store's value when the event starts, since
  the effect registers anew whenever \<open>detailPanelOpen\<close> changes.
\<close>

definition emailDetail_handleKeyDown :: "bool \<Rightarrow> KeyboardEvent \<Rightarrow> World \<Rightarrow> World" where
  "emailDetail_handleKeyDown detailPanelOpen_closure e w =
     (if key e = ''Escape'' \<and> detailPanelOpen_closure
      then w\<lparr>uiStore := closeDetailPanel (uiStore w)\<rparr> else w)"

text \<open>
  One \<open>keydown\<close> event on \<open>window\<close> runs the registered listeners in the order of their
  registration, each to completion on the state the one before left. A listener that
  throws leaves the state as it was at the throw (\<open>handleKeyDown\<close> throws before any
  write) and the next listener still runs. The order changes as the effects register
  anew: \<open>EmailDetail\<close>'s when \<open>detailPanelOpen\<close> changes, \<open>EmailList\<close>'s when
  \<open>displayEmails\<close> or \<open>fetchEmails\<close> is new. Opening a message puts \<open>EmailDetail\<close>'s
  listener last; once the message's body has arrived, \<open>markAsRead\<close> replaces \<open>emails\<close>,
  the memo is recomputed and \<open>EmailList\<close>'s listener is registered anew, behind it.
\<close>

datatype listener = EmailListListener | EmailDetailListener

definition runListener ::
  "(DateRange \<Rightarrow> string) \<Rightarrow> Email list \<Rightarrow> bool \<Rightarrow> KeyboardEvent \<Rightarrow> listener \<Rightarrow> World \<Rightarrow> World" where
  "runListener isoDate displayed open_closure e l w =
     (case l of
        EmailListListener \<Rightarrow>
          (case handleKeyDown isoDate displayed e w of Inl err \<Rightarrow> w | Inr w' \<Rightarrow> w')
      | EmailDetailListener \<Rightarrow> emailDetail_handleKeyDown open_closure e w)"

definition windowKeyDown ::
  "(DateRange \<Rightarrow> string) \<Rightarrow> Email list \<Rightarrow> listener list \<Rightarrow> KeyboardEvent \<Rightarrow> World \<Rightarrow> World" where
  "windowKeyDown isoDate displayed registered e w =
     fold (runListener isoDate displayed (detailPanelOpen (uiStore w)) e) registered w"

section \<open>Concrete data for the examples\<close>

definition mkEmail :: "string \<Rightarrow> Email" where
  "mkEmail i =
     \<lparr>id_e = i, threadId = i, from_e = ''Ann <ann@example.org>'', subject = ''Invoice'',
      date = ''2025-01-02'', snippet = ''Please find attached'', isUnread = Some True,
      hasAttachment = None, labelIds = None\<rparr>"

definition mkClassification :: "string \<Rightarrow> string \<Rightarrow> bool \<Rightarrow> EmailClassification" where
  "mkClassification i cat man =
     \<lparr>id_c = ''c'' @ i, emailId = i, userId = ''user@example.org'', category = cat,
      priority = Medium, isRedundant = False, redundantOf = None, aiReason = None,
      confidence = None, isManual = man\<rparr>"

definition initialUI :: UIState where
  "initialUI =
     \<lparr>sidebarExpanded = True, activeWidget = EmailWidget, detailPanelOpen = False,
      shortcutsModalOpen = False\<rparr>"

definition initialWorld :: World where
  "initialWorld =
     \<lparr>store = initialState, uiStore = initialUI, classifiedIdsRef = {},
      selectedIndexRef = - 1, forceRender = 0, requests = [], console = [],
      displayMemo = [], classifyTimer = False\<rparr>"

text \<open>
  Three loaded messages, none classified, the first page loaded; ids 1 and 2 were
  submitted earlier and are still marked in \<open>classifiedIdsRef\<close>.
\<close>

definition pendingWorld :: World where
  "pendingWorld =
     initialWorld\<lparr>store := initialState\<lparr>emails := [mkEmail ''1'', mkEmail ''2'', mkEmail ''3''],
                                          isLoading := False\<rparr>,
                  classifiedIdsRef := {''1'', ''2''}\<rparr>"

text \<open>One loaded message with a manual classification, a cursor and more pages.\<close>

definition manualState :: EmailState where
  "manualState =
     initialState\<lparr>emails := [mkEmail ''1''],
                  classifications := [''1'' \<mapsto> mkClassification ''1'' ''work'' True],
                  pageToken := Some ''x'', hasMore := True, isLoading := False\<rparr>"

text \<open>The component with that store state and its one message displayed.\<close>

definition loadedWorld :: World where
  "loadedWorld = initialWorld\<lparr>store := manualState, displayMemo := [mkEmail ''1'']\<rparr>"

text \<open>
  Three displayed messages A, B, C with the given active id, nothing selected, the detail
  panel closed.
\<close>

definition threeEmails :: "Email list" where
  "threeEmails = [mkEmail ''A'', mkEmail ''B'', mkEmail ''C'']"


text \<open>The same with A and B selected and the detail panel open on B.\<close>

definition openWorld :: World where
  "openWorld =
     initialWorld\<lparr>store := initialState\<lparr>emails := threeEmails, isLoading := False,
                                          selectedEmailId := Some ''B'',
                                          selectedEmailIds := {''A'', ''B''}\<rparr>,
                  uiStore := initialUI\<lparr>detailPanelOpen := True\<rparr>\<rparr>"



definition fixedDate :: "DateRange \<Rightarrow> string" where
  "fixedDate r = ''2025-01-01''"

section \<open>Helper lemmas\<close>


lemma ids_unclassifiedEmails:
  "set (map id_e (unclassifiedEmails s p)) =
     set (map id_e (emails s)) - dom (classifications s) - p"
  by (auto simp: unclassifiedEmails_def)

lemma fold_insert_ids:
  "fold (\<lambda>e pending. insert (id_e e) pending) batch P = P \<union> set (map id_e batch)"
  by (induction batch arbitrary: P) auto

lemma fold_delete_ids:
  "fold (\<lambda>e pending. pending - {id_e e}) batch P = P - set (map id_e batch)"
  by (induction batch arbitrary: P) auto

lemma classifyBatch_SomeD:
  assumes "classifyBatch w = Some batch"
  shows "batch = take 50 (unclassifiedEmails (store w) (classifiedIdsRef w))"
    and "batch \<noteq> []"
    and "set (map id_e batch) \<subseteq>
        set (map id_e (emails (store w))) - dom (classifications (store w)) - classifiedIdsRef w"
    and "\<not> isClassifying (store w)"
proof -
  from assms show b: "batch = take 50 (unclassifiedEmails (store w) (classifiedIdsRef w))"
    and "batch \<noteq> []" and "\<not> isClassifying (store w)"
    by (auto simp: classifyBatch_def Let_def split: if_splits)
  have "set (map id_e batch) \<subseteq> set (map id_e (unclassifiedEmails (store w) (classifiedIdsRef w)))"
    unfolding b by (metis set_take_subset take_map)
  then show "set (map id_e batch) \<subseteq>
        set (map id_e (emails (store w))) - dom (classifications (store w)) - classifiedIdsRef w"
    unfolding ids_unclassifiedEmails .
qed

lemma classifyBatch_pendingWorld: "classifyBatch pendingWorld = Some [mkEmail ''3'']"
  by (simp add: classifyBatch_def pendingWorld_def initialWorld_def initialState_def
      unclassifiedEmails_def mkEmail_def)







lemma handleKeyDown_Escape:
  assumes "key e = ''Escape''"
    and "targetTagName e \<noteq> ''INPUT''" and "targetTagName e \<noteq> ''TEXTAREA''"
  shows "handleKeyDown isoDate d e w =
     Inr (rerender
       (if detailPanelOpen (uiStore w) then w\<lparr>uiStore := closeDetailPanel (uiStore w)\<rparr>
        else if selectedEmailIds (store w) \<noteq> {} then w\<lparr>store := clearSelection (store w)\<rparr>
        else w\<lparr>store := selectEmail None (store w)\<rparr>))"
  using assms by (simp add: handleKeyDown_def Let_def)









lemma buildQuery_cong:
  assumes "search f2 = search f1" and "unreadOnly f2 = unreadOnly f1"
    and "hasAttachment_f f2 = hasAttachment_f f1" and "dateRange f2 = dateRange f1"
  shows "buildQuery isoDate f2 = buildQuery isoDate f1"
  by (simp add: buildQuery_def assms)

lemma applyUpdate_classificationDerived:
  assumes "classificationDerived u"
  shows "search (applyUpdate u f) = search f" and "unreadOnly (applyUpdate u f) = unreadOnly f"
    and "hasAttachment_f (applyUpdate u f) = hasAttachment_f f"
    and "dateRange (applyUpdate u f) = dateRange f"
  using assms by (cases u; simp)+

section \<open>The visible set\<close>

text \<open>
  C4. With a non-empty category filter, a message that has no entry in the classification
  map fails the visibility test: it is not in the list that \<open>getFilteredEmails\<close> returns,
  nor in the list that the \<open>displayEmails\<close> memo computes on that state.
\<close>

theorem C4_category_filter_fails_closed:
  assumes "categories (filters s) \<noteq> []"
    and "classifications s (id_e m) = None"
  shows "\<not> isVisible s m \<and> m \<notin> set (getFilteredEmails s) \<and> m \<notin> set (displayEmails s)"
  using assms
  by (simp add: getFilteredEmails_def isVisible_def displayEmails_def
      hasClassificationFilters_def)

theorem C4_category_filter_fails_closed_witness:
  "categories (filters (initialState\<lparr>emails := [mkEmail ''1''],
        filters := defaultFilters\<lparr>categories := [''finance'']\<rparr>\<rparr>)) \<noteq> []
   \<and> classifications (initialState\<lparr>emails := [mkEmail ''1''],
        filters := defaultFilters\<lparr>categories := [''finance'']\<rparr>\<rparr>) (id_e (mkEmail ''1'')) = None
   \<and> mkEmail ''1'' \<notin> set (getFilteredEmails (initialState\<lparr>emails := [mkEmail ''1''],
        filters := defaultFilters\<lparr>categories := [''finance'']\<rparr>\<rparr>))
   \<and> mkEmail ''1'' \<notin> set (displayEmails (initialState\<lparr>emails := [mkEmail ''1''],
        filters := defaultFilters\<lparr>categories := [''finance'']\<rparr>\<rparr>))"
proof -
  let ?s = "initialState\<lparr>emails := [mkEmail ''1''],
              filters := defaultFilters\<lparr>categories := [''finance'']\<rparr>\<rparr>"
  have a: "categories (filters ?s) \<noteq> []"
    by (simp add: defaultFilters_def)
  have b: "classifications ?s (id_e (mkEmail ''1'')) = None"
    by (simp add: initialState_def)
  show ?thesis
    using a b C4_category_filter_fails_closed [OF a b] by simp
qed

text \<open>
  C10. \<open>getFilteredEmails\<close> returns an order-preserving sublist of the loaded list: it is
  a subsequence of \<open>emails\<close> (so every returned message is loaded and the relative order is
  the base list's), and no message occurs more often in it than in the base list.
\<close>

theorem C10_filtered_is_subsequence:
  "subseq (getFilteredEmails s) (emails s)
   \<and> set (getFilteredEmails s) \<subseteq> set (emails s)
   \<and> count_list (getFilteredEmails s) m \<le> count_list (emails s) m"
proof -
  have "count_list (filter P xs) m \<le> count_list xs m" for P and xs :: "Email list"
    by (induction xs) auto
  then show ?thesis
    by (simp add: getFilteredEmails_def)
qed

theorem C10_filtered_is_subsequence_witness:
  "subseq (getFilteredEmails manualState) (emails manualState)
   \<and> getFilteredEmails manualState = [mkEmail ''1'']"
  using C10_filtered_is_subsequence [of manualState]
  by (simp add: getFilteredEmails_def isVisible_def manualState_def initialState_def
      defaultFilters_def)

section \<open>The store's merge and replace operations\<close>




text \<open>
  C3, as stated: with the exclude-redundant filter active, a loaded message without a
  classification is excluded. It fails: \<open>classification?.isRedundant\<close> is falsy on a
  missing entry, so the message passes the test and stays visible.
\<close>

theorem C3_unclassified_visible_counterexample:
  "excludeRedundant (filters (initialState\<lparr>emails := [mkEmail ''1''],
        filters := defaultFilters\<lparr>excludeRedundant := True\<rparr>\<rparr>))
   \<and> classifications (initialState\<lparr>emails := [mkEmail ''1''],
        filters := defaultFilters\<lparr>excludeRedundant := True\<rparr>\<rparr>) (id_e (mkEmail ''1'')) = None
   \<and> mkEmail ''1'' \<in> set (getFilteredEmails (initialState\<lparr>emails := [mkEmail ''1''],
        filters := defaultFilters\<lparr>excludeRedundant := True\<rparr>\<rparr>))"
  by (simp add: initialState_def defaultFilters_def getFilteredEmails_def isVisible_def)

text \<open>
  C3, amended: with the exclude-redundant filter active, a message without a
  classification is not excluded by the redundancy test. It is in the visible set exactly
  when it is loaded, the category and priority filters are both empty and the tag filter,
  if any, matches one of its tags. A missing classification excludes a message only
  through a non-empty category or priority filter.
\<close>

theorem C3_exclude_redundant_keeps_unclassified:
  assumes "excludeRedundant (filters s)" and "classifications s (id_e m) = None"
  shows "m \<in> set (getFilteredEmails s) \<longleftrightarrow>
           m \<in> set (emails s) \<and> categories (filters s) = [] \<and> priorities (filters s) = []
           \<and> (tags (filters s) = [] \<or>
               list_ex (\<lambda>tagId. tagId \<in> set (case emailTags s (id_e m) of
                                                None \<Rightarrow> [] | Some tgs \<Rightarrow> tgs))
                       (tags (filters s)))"
  using assms by (auto simp add: getFilteredEmails_def isVisible_def)

theorem C3_exclude_redundant_keeps_unclassified_witness:
  "excludeRedundant (filters (initialState\<lparr>emails := [mkEmail ''1''],
        filters := defaultFilters\<lparr>excludeRedundant := True\<rparr>\<rparr>))
   \<and> classifications (initialState\<lparr>emails := [mkEmail ''1''],
        filters := defaultFilters\<lparr>excludeRedundant := True\<rparr>\<rparr>) (id_e (mkEmail ''1'')) = None
   \<and> mkEmail ''1'' \<in> set (getFilteredEmails (initialState\<lparr>emails := [mkEmail ''1''],
        filters := defaultFilters\<lparr>excludeRedundant := True\<rparr>\<rparr>))"
proof -
  let ?s = "initialState\<lparr>emails := [mkEmail ''1''],
              filters := defaultFilters\<lparr>excludeRedundant := True\<rparr>\<rparr>"
  have a: "excludeRedundant (filters ?s)"
    by simp
  have b: "classifications ?s (id_e (mkEmail ''1'')) = None"
    by (simp add: initialState_def)
  show ?thesis
    using a b C3_exclude_redundant_keeps_unclassified [OF a b]
    by (simp add: defaultFilters_def)
qed

text \<open>
  C5, as stated: the store's \<open>setEmails\<close> resets the pagination cursor and the has-more
  flag. It fails: \<open>setEmails\<close> writes \<open>emails\<close>, \<open>selectedEmailId\<close> and
  \<open>selectedEmailIds\<close> only. A store with cursor x and \<open>hasMore = true\<close> still has both
  after \<open>setEmails([])\<close>.
\<close>

theorem C5_setEmails_keeps_cursor_counterexample:
  "pageToken manualState = Some ''x'' \<and> hasMore manualState
   \<and> pageToken (setEmails [] manualState) = Some ''x''
   \<and> hasMore (setEmails [] manualState)"
  by (simp add: manualState_def setEmails_def)

text \<open>
  C5, amended: \<open>setEmails\<close> sets the base list to exactly the given messages and clears
  the selection (\<open>selectedEmailId\<close> null, \<open>selectedEmailIds\<close> empty); it leaves the cursor and
  the has-more flag as they were. They are set by the \<open>setPageToken\<close> call that follows it
  in the success path of \<open>fetchEmails\<close>: after that path the base list is the response's
  messages, the selection is cleared, the cursor is the response's token and \<open>hasMore\<close>
  says whether the token is truthy.
\<close>

theorem C5_replace_is_setEmails_then_setPageToken:
  "emails (setEmails es s) = es
   \<and> selectedEmailId (setEmails es s) = None
   \<and> selectedEmailIds (setEmails es s) = {}
   \<and> pageToken (setEmails es s) = pageToken s
   \<and> hasMore (setEmails es s) = hasMore s
   \<and> store (fetchEmails_end False (FetchOk (Some es) tok) w)
       = setLoadingMore False (setLoading False (setPageToken tok (setEmails es (store w))))
   \<and> emails (store (fetchEmails_end False (FetchOk (Some es) tok) w)) = es
   \<and> selectedEmailId (store (fetchEmails_end False (FetchOk (Some es) tok) w)) = None
   \<and> selectedEmailIds (store (fetchEmails_end False (FetchOk (Some es) tok) w)) = {}
   \<and> pageToken (store (fetchEmails_end False (FetchOk (Some es) tok) w)) = tok
   \<and> hasMore (store (fetchEmails_end False (FetchOk (Some es) tok) w)) = truthy tok"
  by (simp add: setEmails_def setPageToken_def setLoading_def setLoadingMore_def)

theorem C5_replace_is_setEmails_then_setPageToken_witness:
  "emails (setEmails [mkEmail ''2''] manualState) = [mkEmail ''2'']
   \<and> pageToken (setEmails [mkEmail ''2''] manualState) = Some ''x''
   \<and> pageToken (store (fetchEmails_end False (FetchOk (Some [mkEmail ''2'']) None)
        (initialWorld\<lparr>store := manualState\<rparr>))) = None
   \<and> \<not> hasMore (store (fetchEmails_end False (FetchOk (Some [mkEmail ''2'']) None)
        (initialWorld\<lparr>store := manualState\<rparr>)))"
  using C5_replace_is_setEmails_then_setPageToken
    [of "[mkEmail ''2'']" manualState None "initialWorld\<lparr>store := manualState\<rparr>"]
  by (simp add: manualState_def truthy_def)

section \<open>The classification pipeline\<close>

text \<open>
  C8. When \<open>classifyEmails\<close> goes on to submit a batch, the batch is the first 50 (at
  most) of the unclassified messages, and the ids of the unclassified messages are the
  loaded ids minus the classified ids minus the ids in \<open>classifiedIdsRef\<close>; so every id of
  the batch is loaded, has no classification and was not pending. The batch is not empty
  and has at most 50 messages. Its ids are in \<open>classifiedIdsRef\<close> when the request is
  issued, before any response, so no later computation of the unclassified messages, on
  any store state, contains one of them while they stay there. The request that is
  issued carries the batch itself: its \<open>emails\<close> have the batch's ids, senders, subjects,
  snippets and dates, in the batch's order.
\<close>

theorem C8_batch_is_unclassified_and_marked:
  assumes "classifyBatch w = Some batch"
  shows "batch = take 50 (unclassifiedEmails (store w) (classifiedIdsRef w))
    \<and> set (map id_e (unclassifiedEmails (store w) (classifiedIdsRef w))) =
        set (map id_e (emails (store w))) - dom (classifications (store w)) - classifiedIdsRef w
    \<and> set (map id_e batch) \<subseteq>
        set (map id_e (emails (store w))) - dom (classifications (store w)) - classifiedIdsRef w
    \<and> batch \<noteq> [] \<and> length batch \<le> 50
    \<and> classifiedIdsRef (classifyEmails_begin w) = classifiedIdsRef w \<union> set (map id_e batch)
    \<and> requests (classifyEmails_begin w) =
        requests w @ [PostClassifications (map toEmailForAI batch) (map id_e (emails (store w)))]
    \<and> set (map id_e (unclassifiedEmails s' (classifiedIdsRef (classifyEmails_begin w))))
        \<inter> set (map id_e batch) = {}
    \<and> (\<exists>payload. last (requests (classifyEmails_begin w)) =
            PostClassifications payload (map id_e (emails (store w)))
          \<and> map id_ai payload = map id_e batch
          \<and> map from_ai payload = map from_e batch
          \<and> map subject_ai payload = map subject batch
          \<and> map snippet_ai payload = map snippet batch
          \<and> map date_ai payload = map date batch)"
proof -
  note d = classifyBatch_SomeD [OF assms]
  have len: "length batch \<le> 50"
    by (subst d(1)) simp
  have ref: "classifiedIdsRef (classifyEmails_begin w) = classifiedIdsRef w \<union> set (map id_e batch)"
    using assms by (simp add: classifyEmails_begin_def fold_insert_ids)
  have req: "requests (classifyEmails_begin w) =
        requests w @ [PostClassifications (map toEmailForAI batch) (map id_e (emails (store w)))]"
    using assms by (simp add: classifyEmails_begin_def)
  have again: "set (map id_e (unclassifiedEmails s' (classifiedIdsRef (classifyEmails_begin w))))
        \<inter> set (map id_e batch) = {}"
    unfolding ids_unclassifiedEmails ref by auto
  have payload: "\<exists>payload. last (requests (classifyEmails_begin w)) =
            PostClassifications payload (map id_e (emails (store w)))
          \<and> map id_ai payload = map id_e batch
          \<and> map from_ai payload = map from_e batch
          \<and> map subject_ai payload = map subject batch
          \<and> map snippet_ai payload = map snippet batch
          \<and> map date_ai payload = map date batch"
    by (rule exI [of _ "map toEmailForAI batch"]) (simp add: req toEmailForAI_def)
  have first: "batch = take 50 (unclassifiedEmails (store w) (classifiedIdsRef w))
    \<and> set (map id_e (unclassifiedEmails (store w) (classifiedIdsRef w))) =
        set (map id_e (emails (store w))) - dom (classifications (store w)) - classifiedIdsRef w
    \<and> set (map id_e batch) \<subseteq>
        set (map id_e (emails (store w))) - dom (classifications (store w)) - classifiedIdsRef w
    \<and> batch \<noteq> [] \<and> length batch \<le> 50"
    using d(1,2,3) len ids_unclassifiedEmails by blast
  show ?thesis
    using first ref req again payload by (intro conjI) (elim conjE, assumption)+
qed

text \<open>
  The spec's scenario: ids 1 and 2 are pending, id 3 is newly loaded; the unclassified
  messages are message 3 alone, and it is the batch.
\<close>

theorem C8_batch_is_unclassified_and_marked_witness:
  "classifyBatch pendingWorld = Some [mkEmail ''3'']
   \<and> unclassifiedEmails (store pendingWorld) (classifiedIdsRef pendingWorld) = [mkEmail ''3'']
   \<and> classifiedIdsRef (classifyEmails_begin pendingWorld) = {''1'', ''2'', ''3''}
   \<and> requests (classifyEmails_begin pendingWorld) =
        [PostClassifications [toEmailForAI (mkEmail ''3'')] [''1'', ''2'', ''3'']]
   \<and> map id_ai [toEmailForAI (mkEmail ''3'')] = [''3'']"
proof -
  note T = C8_batch_is_unclassified_and_marked
    [OF classifyBatch_pendingWorld, where s' = "store pendingWorld"]
  have u: "unclassifiedEmails (store pendingWorld) (classifiedIdsRef pendingWorld) = [mkEmail ''3'']"
    by (simp add: pendingWorld_def initialWorld_def initialState_def unclassifiedEmails_def
        mkEmail_def)
  have c: "classifiedIdsRef pendingWorld \<union> set (map id_e [mkEmail ''3'']) = {''1'', ''2'', ''3''}"
    by (auto simp add: mkEmail_def pendingWorld_def initialWorld_def)
  have e: "requests pendingWorld @
      [PostClassifications (map toEmailForAI [mkEmail ''3'']) (map id_e (emails (store pendingWorld)))]
      = [PostClassifications [toEmailForAI (mkEmail ''3'')] [''1'', ''2'', ''3'']]"
    by (simp add: mkEmail_def pendingWorld_def initialWorld_def)
  from T have "classifiedIdsRef (classifyEmails_begin pendingWorld) = {''1'', ''2'', ''3''}"
    unfolding c by blast
  moreover from T have "requests (classifyEmails_begin pendingWorld) =
        [PostClassifications [toEmailForAI (mkEmail ''3'')] [''1'', ''2'', ''3'']]"
    unfolding e by blast
  moreover have "map id_ai [toEmailForAI (mkEmail ''3'')] = [''3'']"
    by (simp add: toEmailForAI_def mkEmail_def)
  ultimately show ?thesis
    using classifyBatch_pendingWorld u by blast
qed

lemma classifyEmails_end_failure:
  assumes "r = ClassifyNotOk \<or> r = ClassifyThrew msg"
  shows "classifiedIdsRef (classifyEmails_end batch r w) = classifiedIdsRef w - set (map id_e batch)"
    and "requests (classifyEmails_end batch r w) = requests w"
    and "error (store (classifyEmails_end batch r w)) = error (store w)"
    and "classifications (store (classifyEmails_end batch r w)) = classifications (store w)"
    and "emails (store (classifyEmails_end batch r w)) = emails (store w)"
    and "\<not> isClassifying (store (classifyEmails_end batch r w))"
    and "store (classifyEmails_end batch r w) = setClassifying False (store w)"
    and "classifyTimer (classifyEmails_end batch r w) = classifyTimer w"
  using assms by (auto simp: fold_delete_ids setClassifying_def)

lemma classifyEmails_begin_Some:
  assumes "classifyBatch w = Some batch"
  shows "classifiedIdsRef (classifyEmails_begin w) = classifiedIdsRef w \<union> set (map id_e batch)"
    and "requests (classifyEmails_begin w) =
        requests w @ [PostClassifications (map toEmailForAI batch) (map id_e (emails (store w)))]"
    and "store (classifyEmails_begin w) = setClassifying True (store w)"
    and "classifyTimer (classifyEmails_begin w) = classifyTimer w"
  using assms by (simp_all add: classifyEmails_begin_def fold_insert_ids)

lemma classifyBatch_cong:
  assumes "store w' = store w" and "classifiedIdsRef w' = classifiedIdsRef w"
  shows "classifyBatch w' = classifyBatch w"
  unfolding classifyBatch_def assms ..

lemma classify_failure_cycle:
  assumes r: "r = ClassifyNotOk \<or> r = ClassifyThrew msg"
    and h: "classifyBatch w0 = Some batch"
  shows "classifiedIdsRef (classifyEmails_end batch r (classifyEmails_begin w0)) = classifiedIdsRef w0"
    and "classifyBatch (classifyEmails_end batch r (classifyEmails_begin w0)) = Some batch"
    and "classifyTimer (classifyEffect newObjects (store (classifyEmails_begin w0))
            (classifyEmails_end batch r (classifyEmails_begin w0)))"
    and "requests (timerFires
              (classifyEffect newObjects (store (classifyEmails_begin w0))
                (classifyEmails_end batch r (classifyEmails_begin w0))))
            = requests w0
              @ [PostClassifications (map toEmailForAI batch) (map id_e (emails (store w0))),
                 PostClassifications (map toEmailForAI batch) (map id_e (emails (store w0)))]"
proof -
  let ?w1 = "classifyEmails_begin w0"
  let ?w2 = "classifyEmails_end batch r ?w1"
  let ?w3 = "classifyEffect newObjects (store ?w1) ?w2"
  let ?w4 = "?w3\<lparr>classifyTimer := False\<rparr>"
  let ?P = "PostClassifications (map toEmailForAI batch) (map id_e (emails (store w0)))"
  note e = classifyEmails_end_failure [OF r]
  note d = classifyBatch_SomeD [OF h]
  note b = classifyEmails_begin_Some [OF h]
  have "classifiedIdsRef ?w2 = (classifiedIdsRef w0 \<union> set (map id_e batch)) - set (map id_e batch)"
    by (simp add: e(1) b(1))
  with d(3) show ref: "classifiedIdsRef ?w2 = classifiedIdsRef w0"
    by auto
  have st: "store ?w2 = store w0"
    using d(4) by (simp add: e(7) b(3) setClassifying_def)
  show "classifyBatch ?w2 = Some batch"
    using classifyBatch_cong [OF st ref] h by simp
  have rq: "requests ?w2 = requests w0 @ [?P]"
    by (simp add: e(2) b(2))
  show t3: "classifyTimer ?w3"
    by (simp add: classifyEffect_def e(7) b(3) setClassifying_def)
  have f4: "store ?w4 = store w0" "classifiedIdsRef ?w4 = classifiedIdsRef w0"
    "requests ?w4 = requests w0 @ [?P]"
    using st ref rq by (simp_all add: classifyEffect_def)
  have "classifyBatch ?w4 = Some batch"
    using classifyBatch_cong [OF f4(1,2)] h by simp
  from classifyEmails_begin_Some(2) [OF this]
  have "requests (classifyEmails_begin ?w4) = requests w0 @ [?P, ?P]"
    unfolding f4 by simp
  with t3 show "requests (timerFires ?w3) = requests w0 @ [?P, ?P]"
    by (simp add: timerFires_def)
qed

text \<open>
  C9, as stated: after a failed classification request no automatic retry is issued. It
  fails: \<open>finally\<close> sets \<open>isClassifying\<close> back to false, a dependency of the effect, so
  the effect sets the timer again, and the timer's callback finds the batch's messages
  unclassified and not pending. Here message 3 is submitted, the response is not ok, and
  the next firing of the timer submits message 3 again: two identical requests, with no
  input and no change of the loaded list in between.
\<close>

theorem C9_failed_batch_is_resubmitted_counterexample:
  "requests (classifyEmails_begin pendingWorld) =
     [PostClassifications [toEmailForAI (mkEmail ''3'')] [''1'', ''2'', ''3'']]
   \<and> classifyTimer
        (classifyEffect False (store (classifyEmails_begin pendingWorld))
          (classifyEmails_end [mkEmail ''3''] ClassifyNotOk (classifyEmails_begin pendingWorld)))
   \<and> requests (timerFires
        (classifyEffect False (store (classifyEmails_begin pendingWorld))
          (classifyEmails_end [mkEmail ''3''] ClassifyNotOk (classifyEmails_begin pendingWorld))))
      = [PostClassifications [toEmailForAI (mkEmail ''3'')] [''1'', ''2'', ''3''],
         PostClassifications [toEmailForAI (mkEmail ''3'')] [''1'', ''2'', ''3'']]"
proof -
  have a: "ClassifyNotOk = ClassifyNotOk \<or> ClassifyNotOk = ClassifyThrew []"
    by simp
  note c = classify_failure_cycle [OF a classifyBatch_pendingWorld]
  have ids: "map id_e (emails (store pendingWorld)) = [''1'', ''2'', ''3'']"
    and r0: "requests pendingWorld = []"
    by (simp_all add: pendingWorld_def initialWorld_def mkEmail_def)
  have r1: "requests (classifyEmails_begin pendingWorld) =
     [PostClassifications [toEmailForAI (mkEmail ''3'')] [''1'', ''2'', ''3'']]"
    using classifyEmails_begin_Some(2) [OF classifyBatch_pendingWorld]
    unfolding ids r0 by simp
  have r2: "requests (timerFires
        (classifyEffect False (store (classifyEmails_begin pendingWorld))
          (classifyEmails_end [mkEmail ''3''] ClassifyNotOk (classifyEmails_begin pendingWorld))))
      = [PostClassifications [toEmailForAI (mkEmail ''3'')] [''1'', ''2'', ''3''],
         PostClassifications [toEmailForAI (mkEmail ''3'')] [''1'', ''2'', ''3'']]"
    using c(4) unfolding ids r0 by simp
  show ?thesis
    by (intro conjI r1 c(3) r2)
qed

text \<open>
  C9, amended: when a classification request fails (the response is not ok, or the fetch
  throws), the rest of \<open>classifyEmails\<close> removes exactly the batch's ids from
  \<open>classifiedIdsRef\<close>, issues no request itself, leaves the store's \<open>error\<close>, its
  classification map and its loaded list as they were and ends with
  \<open>isClassifying = false\<close>. That change of \<open>isClassifying\<close> makes the effect set the
  timer again. In a run that started from \<open>w0\<close> the ref is then what it was in \<open>w0\<close>,
  the batch is computed again, and when the timer fires the same request is issued a second
  time, with no user action.
\<close>

theorem C9_failure_rolls_back_and_retries:
  assumes "r = ClassifyNotOk \<or> r = ClassifyThrew msg"
  shows "classifiedIdsRef (classifyEmails_end batch r w) = classifiedIdsRef w - set (map id_e batch)
    \<and> requests (classifyEmails_end batch r w) = requests w
    \<and> error (store (classifyEmails_end batch r w)) = error (store w)
    \<and> classifications (store (classifyEmails_end batch r w)) = classifications (store w)
    \<and> emails (store (classifyEmails_end batch r w)) = emails (store w)
    \<and> \<not> isClassifying (store (classifyEmails_end batch r w))
    \<and> (isClassifying (store w) \<longrightarrow>
         classifyTimer (classifyEffect newObjects (store w) (classifyEmails_end batch r w)))
    \<and> (classifyBatch w0 = Some batch \<longrightarrow>
         classifiedIdsRef (classifyEmails_end batch r (classifyEmails_begin w0)) = classifiedIdsRef w0
         \<and> classifyBatch (classifyEmails_end batch r (classifyEmails_begin w0)) = Some batch
         \<and> requests (timerFires
              (classifyEffect newObjects (store (classifyEmails_begin w0))
                (classifyEmails_end batch r (classifyEmails_begin w0))))
            = requests w0
              @ [PostClassifications (map toEmailForAI batch) (map id_e (emails (store w0))),
                 PostClassifications (map toEmailForAI batch) (map id_e (emails (store w0)))])"
proof -
  note e = classifyEmails_end_failure [OF assms]
  have arm: "isClassifying (store w) \<longrightarrow>
         classifyTimer (classifyEffect newObjects (store w) (classifyEmails_end batch r w))"
    by (simp add: classifyEffect_def e(7) setClassifying_def)
  have cyc: "classifyBatch w0 = Some batch \<longrightarrow>
         classifiedIdsRef (classifyEmails_end batch r (classifyEmails_begin w0)) = classifiedIdsRef w0
         \<and> classifyBatch (classifyEmails_end batch r (classifyEmails_begin w0)) = Some batch
         \<and> requests (timerFires
              (classifyEffect newObjects (store (classifyEmails_begin w0))
                (classifyEmails_end batch r (classifyEmails_begin w0))))
            = requests w0
              @ [PostClassifications (map toEmailForAI batch) (map id_e (emails (store w0))),
                 PostClassifications (map toEmailForAI batch) (map id_e (emails (store w0)))]"
  proof (rule impI)
    assume h: "classifyBatch w0 = Some batch"
    note c = classify_failure_cycle [OF assms h]
    show "classifiedIdsRef (classifyEmails_end batch r (classifyEmails_begin w0)) = classifiedIdsRef w0
         \<and> classifyBatch (classifyEmails_end batch r (classifyEmails_begin w0)) = Some batch
         \<and> requests (timerFires
              (classifyEffect newObjects (store (classifyEmails_begin w0))
                (classifyEmails_end batch r (classifyEmails_begin w0))))
            = requests w0
              @ [PostClassifications (map toEmailForAI batch) (map id_e (emails (store w0))),
                 PostClassifications (map toEmailForAI batch) (map id_e (emails (store w0)))]"
      by (intro conjI c(1) c(2) c(4))
  qed
  show ?thesis
    by (intro conjI e(1-6) arm cyc)
qed

theorem C9_failure_rolls_back_and_retries_witness:
  "classifyBatch pendingWorld = Some [mkEmail ''3'']
   \<and> classifiedIdsRef (classifyEmails_begin pendingWorld) = {''1'', ''2'', ''3''}
   \<and> classifiedIdsRef (classifyEmails_end [mkEmail ''3''] (ClassifyThrew ''Failed to fetch'')
        (classifyEmails_begin pendingWorld)) = {''1'', ''2''}
   \<and> requests (classifyEmails_end [mkEmail ''3''] (ClassifyThrew ''Failed to fetch'')
        (classifyEmails_begin pendingWorld)) = requests (classifyEmails_begin pendingWorld)
   \<and> error (store (classifyEmails_end [mkEmail ''3''] (ClassifyThrew ''Failed to fetch'')
        (classifyEmails_begin pendingWorld))) = None
   \<and> classifyBatch (classifyEmails_end [mkEmail ''3''] (ClassifyThrew ''Failed to fetch'')
        (classifyEmails_begin pendingWorld)) = Some [mkEmail ''3'']
   \<and> length (requests (timerFires
        (classifyEffect False (store (classifyEmails_begin pendingWorld))
          (classifyEmails_end [mkEmail ''3''] (ClassifyThrew ''Failed to fetch'')
            (classifyEmails_begin pendingWorld))))) = 2"
proof -
  let ?r = "ClassifyThrew ''Failed to fetch''"
  have a: "?r = ClassifyNotOk \<or> ?r = ClassifyThrew ''Failed to fetch''"
    by simp
  note T = C9_failure_rolls_back_and_retries
      [OF a, of "[mkEmail ''3'']" "classifyEmails_begin pendingWorld" False pendingWorld]
  note C = T [THEN conjunct2, THEN conjunct2, THEN conjunct2, THEN conjunct2, THEN conjunct2,
      THEN conjunct2, THEN conjunct2, THEN mp, OF classifyBatch_pendingWorld]
  have b: "classifiedIdsRef (classifyEmails_begin pendingWorld) = {''1'', ''2'', ''3''}"
    unfolding classifyEmails_begin_def classifyBatch_pendingWorld
    by (auto simp add: mkEmail_def pendingWorld_def initialWorld_def)
  have e: "error (store (classifyEmails_begin pendingWorld)) = None"
    unfolding classifyEmails_begin_def classifyBatch_pendingWorld
    by (simp add: pendingWorld_def initialWorld_def initialState_def setClassifying_def)
  have c: "classifiedIdsRef pendingWorld = {''1'', ''2''}" and r0: "requests pendingWorld = []"
    by (simp_all add: pendingWorld_def initialWorld_def)
  have 1: "classifiedIdsRef (classifyEmails_end [mkEmail ''3''] ?r
        (classifyEmails_begin pendingWorld)) = {''1'', ''2''}"
    using C [THEN conjunct1] c by simp
  have 2: "requests (classifyEmails_end [mkEmail ''3''] ?r
        (classifyEmails_begin pendingWorld)) = requests (classifyEmails_begin pendingWorld)"
    by (rule T [THEN conjunct2, THEN conjunct1])
  have 3: "error (store (classifyEmails_end [mkEmail ''3''] ?r
        (classifyEmails_begin pendingWorld))) = None"
    using T [THEN conjunct2, THEN conjunct2, THEN conjunct1] e by simp
  have 4: "classifyBatch (classifyEmails_end [mkEmail ''3''] ?r
        (classifyEmails_begin pendingWorld)) = Some [mkEmail ''3'']"
    by (rule C [THEN conjunct2, THEN conjunct1])
  have 5: "length (requests (timerFires
        (classifyEffect False (store (classifyEmails_begin pendingWorld))
          (classifyEmails_end [mkEmail ''3''] ?r (classifyEmails_begin pendingWorld))))) = 2"
    using C [THEN conjunct2, THEN conjunct2] r0 by simp
  show ?thesis
    by (intro conjI classifyBatch_pendingWorld b 1 2 3 4 5)
qed

section \<open>Filter changes and the list fetch\<close>

text \<open>
  C1, as stated: a switch between filter states that differ only in a
  classification-derived field triggers no fetch of the message list and leaves the base
  list and the cursor unchanged. It fails: the effect on \<open>[filters]\<close> runs \<open>fetchEmails()\<close>
  on every new \<open>filters\<close> object. Here the category filter is switched on with one message
  loaded and cursor x: a first-page request is issued, and when it is answered with
  message 2 and no next page, the base list and the cursor are the response's.
\<close>

theorem C1_category_change_refetches_counterexample:
  "requests (initialWorld\<lparr>store := manualState\<rparr>) = []
   \<and> requests (changeFilter fixedDate (Categories [''finance''])
        (initialWorld\<lparr>store := manualState\<rparr>)) = [GetMessages None None]
   \<and> emails manualState = [mkEmail ''1''] \<and> pageToken manualState = Some ''x''
   \<and> emails (store (fetchEmails_end False (FetchOk (Some [mkEmail ''2'']) None)
        (changeFilter fixedDate (Categories [''finance''])
          (initialWorld\<lparr>store := manualState\<rparr>)))) = [mkEmail ''2'']
   \<and> pageToken (store (fetchEmails_end False (FetchOk (Some [mkEmail ''2'']) None)
        (changeFilter fixedDate (Categories [''finance''])
          (initialWorld\<lparr>store := manualState\<rparr>)))) = None
   \<and> mkEmail ''2'' \<noteq> mkEmail ''1''"
  by (simp add: changeFilter_def fetchEmails_begin_def fetchEmails_end.simps updateFilter_def
      useMemo_displayEmails_def buildQuery_def manualState_def initialState_def initialWorld_def defaultFilters_def
      setLoading_def setLoadingMore_def setError_def setEmails_def setPageToken_def
      truthy_def mkEmail_def Let_def)

text \<open>
  C1, amended: two filter states that differ only in classification-derived fields
  (categories, priorities, tags, excludeRedundant) have the same remote query string. The
  store switches filters by \<open>updateFilter\<close> (one key) or by \<open>resetFilters\<close> (to the
  defaults). \<open>updateFilter\<close> on a classification-derived key leaves the base list, the
  cursor and the has-more flag as they were; \<open>resetFilters\<close> leaves the base list and the
  has-more flag as they were and sets the cursor to null. After an \<open>updateFilter\<close> that
  gives the memo a new dependency (a categories or priorities array, or another value of
  excludeRedundant) the displayed list is recomputed from the already-loaded list: it is
  that list filtered by the new filters when a category, priority or exclude-redundant
  filter is active, and the whole list otherwise. Either switch nevertheless issues a
  first-page request (the unchanged query, no page token); the base list stays as it was
  until the request is answered, and a successful answer replaces the base list and the
  cursor with the response's messages and token and clears the selection (active id null,
  selected ids empty).
\<close>

theorem C1_classification_filter_change:
  assumes "classificationDerived u"
  shows "buildQuery isoDate (applyUpdate u f) = buildQuery isoDate f
    \<and> buildQuery isoDate
          (f\<lparr>categories := cs, priorities := ps, tags := ts, excludeRedundant := x\<rparr>)
        = buildQuery isoDate f
    \<and> emails (updateFilter u s) = emails s
    \<and> pageToken (updateFilter u s) = pageToken s
    \<and> hasMore (updateFilter u s) = hasMore s
    \<and> emails (resetFilters s) = emails s
    \<and> pageToken (resetFilters s) = None
    \<and> hasMore (resetFilters s) = hasMore s
    \<and> (memoDepChanged u (filters (store w)) \<longrightarrow>
          displayMemo (changeFilter isoDate u w) =
            (if hasClassificationFilters (applyUpdate u (filters (store w)))
             then filter (isVisible (updateFilter u (store w))) (emails (store w))
             else emails (store w)))
    \<and> requests (changeFilter isoDate u w) =
        requests w @
          [GetMessages (if buildQuery isoDate (filters (store w)) \<noteq> []
                        then Some (buildQuery isoDate (filters (store w))) else None) None]
    \<and> requests (clearFilters isoDate c w) = requests w @ [GetMessages None None]
    \<and> emails (store (changeFilter isoDate u w)) = emails (store w)
    \<and> pageToken (store (changeFilter isoDate u w)) = pageToken (store w)
    \<and> emails (store (clearFilters isoDate c w)) = emails (store w)
    \<and> pageToken (store (clearFilters isoDate c w)) = None
    \<and> emails (store (fetchEmails_end False (FetchOk (Some ms) tok)
          (changeFilter isoDate u w))) = ms
    \<and> pageToken (store (fetchEmails_end False (FetchOk (Some ms) tok)
          (changeFilter isoDate u w))) = tok
    \<and> selectedEmailId (store (fetchEmails_end False (FetchOk (Some ms) tok)
          (changeFilter isoDate u w))) = None
    \<and> selectedEmailIds (store (fetchEmails_end False (FetchOk (Some ms) tok)
          (changeFilter isoDate u w))) = {}
    \<and> emails (store (fetchEmails_end False (FetchOk (Some ms) tok)
          (clearFilters isoDate c w))) = ms
    \<and> pageToken (store (fetchEmails_end False (FetchOk (Some ms) tok)
          (clearFilters isoDate c w))) = tok
    \<and> selectedEmailId (store (fetchEmails_end False (FetchOk (Some ms) tok)
          (clearFilters isoDate c w))) = None
    \<and> selectedEmailIds (store (fetchEmails_end False (FetchOk (Some ms) tok)
          (clearFilters isoDate c w))) = {}"
proof -
  have q: "buildQuery isoDate (applyUpdate u f) = buildQuery isoDate f" for f
    by (rule buildQuery_cong) (rule applyUpdate_classificationDerived [OF assms])+
  have q2: "buildQuery isoDate
          (f\<lparr>categories := cs, priorities := ps, tags := ts, excludeRedundant := x\<rparr>)
        = buildQuery isoDate f"
    by (rule buildQuery_cong) simp_all
  have st: "emails (updateFilter u s) = emails s" "pageToken (updateFilter u s) = pageToken s"
    "hasMore (updateFilter u s) = hasMore s"
    by (simp_all add: updateFilter_def)
  have rs: "emails (resetFilters s) = emails s" "pageToken (resetFilters s) = None"
    "hasMore (resetFilters s) = hasMore s"
    by (simp_all add: resetFilters_def)
  have disp: "memoDepChanged u (filters (store w)) \<longrightarrow>
          displayMemo (changeFilter isoDate u w) =
            (if hasClassificationFilters (applyUpdate u (filters (store w)))
             then filter (isVisible (updateFilter u (store w))) (emails (store w))
             else emails (store w))"
    by (simp add: changeFilter_def fetchEmails_begin_def useMemo_displayEmails_def Let_def
        displayEmails_def getFilteredEmails_def updateFilter_def)
  have req: "requests (changeFilter isoDate u w) =
        requests w @
          [GetMessages (if buildQuery isoDate (filters (store w)) \<noteq> []
                        then Some (buildQuery isoDate (filters (store w))) else None) None]"
    by (simp add: changeFilter_def fetchEmails_begin_def useMemo_displayEmails_def
        updateFilter_def q Let_def)
  have q0: "buildQuery isoDate defaultFilters = []"
    by (simp add: buildQuery_def defaultFilters_def)
  have req2: "requests (clearFilters isoDate c w) = requests w @ [GetMessages None None]"
    by (simp add: clearFilters_def fetchEmails_begin_def useMemo_displayEmails_def
        resetFilters_def q0 Let_def)
  have keep: "emails (store (changeFilter isoDate u w)) = emails (store w)"
    "pageToken (store (changeFilter isoDate u w)) = pageToken (store w)"
    by (simp_all add: changeFilter_def fetchEmails_begin_def useMemo_displayEmails_def
        updateFilter_def Let_def setError_def setLoading_def)
  have keep2: "emails (store (clearFilters isoDate c w)) = emails (store w)"
    "pageToken (store (clearFilters isoDate c w)) = None"
    by (simp_all add: clearFilters_def fetchEmails_begin_def useMemo_displayEmails_def
        resetFilters_def Let_def setError_def setLoading_def)
  have repl: "emails (store (fetchEmails_end False (FetchOk (Some ms) tok) w')) = ms"
    "pageToken (store (fetchEmails_end False (FetchOk (Some ms) tok) w')) = tok"
    "selectedEmailId (store (fetchEmails_end False (FetchOk (Some ms) tok) w')) = None"
    "selectedEmailIds (store (fetchEmails_end False (FetchOk (Some ms) tok) w')) = {}" for w'
    by (simp_all add: setEmails_def setPageToken_def setLoading_def setLoadingMore_def)
  show ?thesis
    by (intro conjI q q2 st rs disp req req2 keep keep2 repl)
qed

text \<open>
  With message 1 loaded, classified as work, displayed, and cursor x: switching the
  category filter to finance empties the displayed list, keeps the base list and the
  cursor and issues the first-page request; clearing the filters sets the cursor to null.
\<close>

theorem C1_classification_filter_change_witness:
  "classificationDerived (Categories [''finance''])
   \<and> memoDepChanged (Categories [''finance'']) (filters (store loadedWorld))
   \<and> displayMemo loadedWorld = [mkEmail ''1'']
   \<and> displayMemo (changeFilter fixedDate (Categories [''finance'']) loadedWorld) = []
   \<and> emails (store (changeFilter fixedDate (Categories [''finance'']) loadedWorld))
       = [mkEmail ''1'']
   \<and> pageToken (store (changeFilter fixedDate (Categories [''finance'']) loadedWorld))
       = Some ''x''
   \<and> requests (changeFilter fixedDate (Categories [''finance'']) loadedWorld)
       = [GetMessages None None]
   \<and> pageToken (store (clearFilters fixedDate True loadedWorld)) = None"
proof -
  have c: "classificationDerived (Categories [''finance''])"
    and m: "memoDepChanged (Categories [''finance'']) (filters (store loadedWorld))"
    by simp_all
  note T = C1_classification_filter_change [OF c, of fixedDate _ _ _ _ _ _ loadedWorld]
  have f: "store loadedWorld = manualState" "requests loadedWorld = []"
    "displayMemo loadedWorld = [mkEmail ''1'']"
    by (simp_all add: loadedWorld_def initialWorld_def)
  have g: "filters manualState = defaultFilters" "emails manualState = [mkEmail ''1'']"
    "pageToken manualState = Some ''x''"
    by (simp_all add: manualState_def initialState_def)
  have q0: "buildQuery fixedDate defaultFilters = []"
    by (simp add: buildQuery_def defaultFilters_def)
  have v: "hasClassificationFilters (applyUpdate (Categories [''finance'']) defaultFilters)"
    "\<not> isVisible (updateFilter (Categories [''finance'']) manualState) (mkEmail ''1'')"
    by (simp_all add: hasClassificationFilters_def isVisible_def updateFilter_def
        manualState_def initialState_def mkEmail_def mkClassification_def)
  from T [of defaultFilters] show ?thesis
    unfolding f g q0 using c v by simp
qed

section \<open>Keyboard navigation\<close>





text \<open>
  C7. The claim: one Escape event does exactly one thing, in the order panel, selection,
  active id; from a state with the detail panel open and a non-empty selection the
  first Escape closes the panel only. \<open>EmailList\<close>'s handler alone does that, but the event
  also runs \<open>EmailDetail\<close>'s listener, and \<open>EmailList\<close>'s handler reads the store afresh.
  With the panel open on B, A and B selected, and \<open>EmailDetail\<close>'s listener registered
  first (the order once the opened message's body has loaded), one Escape event closes
  the panel and also empties the selection; the second one already clears the active id.
  With \<open>EmailList\<close>'s listener first, the same event closes the panel only.
\<close>

theorem C7_escape_event_runs_both_listeners:
  "detailPanelOpen (uiStore openWorld)
   \<and> selectedEmailIds (store openWorld) = {''A'', ''B''}
   \<and> selectedEmailId (store openWorld) = Some ''B''
   \<and> \<not> detailPanelOpen (uiStore (windowKeyDown fixedDate threeEmails
          [EmailDetailListener, EmailListListener] (keyEvent ''Escape'') openWorld))
   \<and> selectedEmailIds (store (windowKeyDown fixedDate threeEmails
          [EmailDetailListener, EmailListListener] (keyEvent ''Escape'') openWorld)) = {}
   \<and> selectedEmailId (store (windowKeyDown fixedDate threeEmails
          [EmailDetailListener, EmailListListener] (keyEvent ''Escape'') openWorld)) = Some ''B''
   \<and> selectedEmailId (store (windowKeyDown fixedDate threeEmails
          [EmailDetailListener, EmailListListener] (keyEvent ''Escape'')
          (windowKeyDown fixedDate threeEmails
            [EmailDetailListener, EmailListListener] (keyEvent ''Escape'') openWorld))) = None
   \<and> \<not> detailPanelOpen (uiStore (windowKeyDown fixedDate threeEmails
          [EmailListListener, EmailDetailListener] (keyEvent ''Escape'') openWorld))
   \<and> selectedEmailIds (store (windowKeyDown fixedDate threeEmails
          [EmailListListener, EmailDetailListener] (keyEvent ''Escape'') openWorld))
       = {''A'', ''B''}"
proof -
  have k: "key (keyEvent ''Escape'') = ''Escape''"
    "targetTagName (keyEvent ''Escape'') \<noteq> ''INPUT''"
    "targetTagName (keyEvent ''Escape'') \<noteq> ''TEXTAREA''"
    by (simp_all add: keyEvent_def)
  note h = handleKeyDown_Escape [OF k, of fixedDate threeEmails]
  have o: "detailPanelOpen (uiStore openWorld)"
    and s: "selectedEmailIds (store openWorld) = {''A'', ''B''}"
    and a: "selectedEmailId (store openWorld) = Some ''B''"
    by (simp_all add: openWorld_def initialWorld_def)
  let ?dl = "windowKeyDown fixedDate threeEmails
          [EmailDetailListener, EmailListListener] (keyEvent ''Escape'')"
  let ?ld = "windowKeyDown fixedDate threeEmails
          [EmailListListener, EmailDetailListener] (keyEvent ''Escape'')"
  have dl: "?dl w =
      rerender
        (if selectedEmailIds (store w) \<noteq> {}
         then w\<lparr>uiStore := closeDetailPanel (uiStore w), store := clearSelection (store w)\<rparr>
         else w\<lparr>uiStore := closeDetailPanel (uiStore w), store := selectEmail None (store w)\<rparr>)"
    if "detailPanelOpen (uiStore w)" for w
    using that
    by (simp add: windowKeyDown_def runListener_def emailDetail_handleKeyDown_def h k
        closeDetailPanel_def)
  have dl': "?dl w =
      rerender
        (if selectedEmailIds (store w) \<noteq> {} then w\<lparr>store := clearSelection (store w)\<rparr>
         else w\<lparr>store := selectEmail None (store w)\<rparr>)"
    if "\<not> detailPanelOpen (uiStore w)" for w
    using that
    by (simp add: windowKeyDown_def runListener_def emailDetail_handleKeyDown_def h)
  have ld: "?ld w = rerender (w\<lparr>uiStore := closeDetailPanel (uiStore w)\<rparr>)"
    if "detailPanelOpen (uiStore w)" for w
    using that
    by (simp add: windowKeyDown_def runListener_def emailDetail_handleKeyDown_def h k
        closeDetailPanel_def rerender_def)
  have 1: "\<not> detailPanelOpen (uiStore (?dl openWorld))"
    "selectedEmailIds (store (?dl openWorld)) = {}"
    "selectedEmailId (store (?dl openWorld)) = Some ''B''"
    unfolding dl [OF o]
    by (simp_all add: s a rerender_def closeDetailPanel_def clearSelection_def)
  have 2: "selectedEmailId (store (?dl (?dl openWorld))) = None"
    unfolding dl' [OF 1(1)] by (simp add: 1(2) rerender_def selectEmail_def)
  have 3: "\<not> detailPanelOpen (uiStore (?ld openWorld))"
    "selectedEmailIds (store (?ld openWorld)) = {''A'', ''B''}"
    unfolding ld [OF o] by (simp_all add: s rerender_def closeDetailPanel_def)
  show ?thesis
    by (intro conjI o s a 1 2 3)
qed

end
